theory Spec2Isabelle
  imports Complex_Main
begin

section \<open>Python numbers\<close>

text \<open>
  The program computes with Python floats. They are modelled as real numbers with exact
  arithmetic: the rounding of each operation to a double, with underflow to zero and
  overflow to infinity, is outside the model. So the theorems below speak of the
  expressions the program evaluates and of the errors it raises when a divisor or an
  argument is zero or negative as a real number; they say nothing about inputs whose
  intermediate results leave the range of doubles. What the model keeps from Python is
  a division by zero (\<open>ZeroDivisionError\<close>), \<open>math.sqrt\<close> and \<open>math.log10\<close> outside
  their domain (\<open>ValueError\<close>), a power too large for a double
  (\<open>OverflowError\<close>), and that \<open>**\<close> with a negative base and a fractional exponent
  returns a complex number.
\<close>

datatype py_error = ZeroDivisionError | ValueError | OverflowError

datatype py_num = PyFloat real | PyComplex complex

text \<open>\<open>a / b\<close> on floats.\<close>

definition float_div :: "real \<Rightarrow> real \<Rightarrow> py_error + real" where
  "float_div a b = (if b = 0 then Inl ZeroDivisionError else Inr (a / b))"

text \<open>\<open>math.sqrt(x)\<close> and \<open>math.log10(x)\<close>.\<close>

definition math_sqrt :: "real \<Rightarrow> py_error + real" where
  "math_sqrt x = (if x < 0 then Inl ValueError else Inr (sqrt x))"

definition math_log10 :: "real \<Rightarrow> py_error + real" where
  "math_log10 x = (if x \<le> 0 then Inl ValueError else Inr (log 10 x))"

text \<open>
  \<open>x ** 2\<close> on a float. The power is \<open>x * x\<close>; it raises \<open>OverflowError\<close> when the
  result rounds to infinity, that is when it reaches \<open>2\<^sup>1\<^sup>0\<^sup>2\<^sup>4 - 2\<^sup>9\<^sup>7\<^sup>0\<close>, half a unit in the
  last place above the largest double. For a double \<open>x\<close> this is \<open>|x| \<ge> 2\<^sup>5\<^sup>1\<^sup>2\<close>.
\<close>

definition float_square :: "real \<Rightarrow> py_error + real" where
  "float_square x =
     (if 2 ^ 1024 - 2 ^ 970 \<le> x\<^sup>2 then Inl OverflowError else Inr (x\<^sup>2))"

text \<open>
  \<open>x ** 0.2\<close> on a float. A negative base with this exponent, which is not an integer,
  gives the principal complex value \<open>|x|\<^sup>0\<^sup>.\<^sup>2 (cos (0.2 \<pi>) + i sin (0.2 \<pi>))\<close>; otherwise
  the result is a float, and \<open>0 ** 0.2\<close> is 0. The fifth root of a double is far
  inside the range of doubles, so this power does not raise.
\<close>

definition float_pow_fifth :: "real \<Rightarrow> py_num" where
  "float_pow_fifth x =
     (if 0 \<le> x then PyFloat (x powr 0.2)
      else PyComplex (of_real ((- x) powr 0.2) * cis (pi * 0.2)))"

text \<open>\<open>a * b\<close> and \<open>a / b\<close> where an operand may be complex: a float operand is
  converted to a complex number first; dividing by a complex zero raises as well.\<close>

fun py_mul :: "py_num \<Rightarrow> py_num \<Rightarrow> py_num" where
  "py_mul (PyFloat a) (PyFloat b) = PyFloat (a * b)"
| "py_mul (PyFloat a) (PyComplex w) = PyComplex (of_real a * w)"
| "py_mul (PyComplex z) (PyFloat b) = PyComplex (z * of_real b)"
| "py_mul (PyComplex z) (PyComplex w) = PyComplex (z * w)"

fun py_div :: "py_num \<Rightarrow> py_num \<Rightarrow> py_error + py_num" where
  "py_div (PyFloat a) (PyFloat b) =
     (if b = 0 then Inl ZeroDivisionError else Inr (PyFloat (a / b)))"
| "py_div (PyFloat a) (PyComplex w) =
     (if w = 0 then Inl ZeroDivisionError else Inr (PyComplex (of_real a / w)))"
| "py_div (PyComplex z) (PyFloat b) =
     (if b = 0 then Inl ZeroDivisionError else Inr (PyComplex (z / of_real b)))"
| "py_div (PyComplex z) (PyComplex w) =
     (if w = 0 then Inl ZeroDivisionError else Inr (PyComplex (z / w)))"

text \<open>Sequencing: an error raised by one step ends the computation with that error.\<close>

definition raising :: "py_error + 'a \<Rightarrow> ('a \<Rightarrow> py_error + 'b) \<Rightarrow> py_error + 'b" where
  "raising r f = (case r of Inl e \<Rightarrow> Inl e | Inr v \<Rightarrow> f v)"

section \<open>The column\<close>

text \<open>The attributes of a \<open>DistillationColumn\<close> object: the eleven constructor
  parameters and the derived cross-sectional area.\<close>

record DistillationColumn =
  diameter :: real
  Dmole_flow :: real
  Bmole_flow :: real
  Dmass_flow :: real
  Bmass_flow :: real
  reflux_ratio :: real
  boilup_ratio :: real
  liquid_density :: real
  vapor_density :: real
  molecular_weight :: real
  surface_tension :: real
  cross_sectional_area :: real

text \<open>
  \<open>__init__\<close> stores its eleven arguments and computes the area. It checks nothing.
  The one operation in it that can raise is \<open>self.diameter ** 2\<close>.
\<close>

definition DistillationColumn_init ::
  "real \<Rightarrow> real \<Rightarrow> real \<Rightarrow> real \<Rightarrow> real \<Rightarrow> real \<Rightarrow> real \<Rightarrow> real \<Rightarrow> real \<Rightarrow> real \<Rightarrow> real
     \<Rightarrow> py_error + DistillationColumn" where
  "DistillationColumn_init diameter' Dmole_flow' Bmole_flow' Dmass_flow' Bmass_flow'
       reflux_ratio' boilup_ratio' liquid_density' vapor_density' molecular_weight'
       surface_tension' =
     raising (float_square diameter') (\<lambda>square.
     Inr \<lparr> diameter = diameter',
           Dmole_flow = Dmole_flow',
           Bmole_flow = Bmole_flow',
           Dmass_flow = Dmass_flow',
           Bmass_flow = Bmass_flow',
           reflux_ratio = reflux_ratio',
           boilup_ratio = boilup_ratio',
           liquid_density = liquid_density',
           vapor_density = vapor_density',
           molecular_weight = molecular_weight',
           surface_tension = surface_tension',
           cross_sectional_area = 0.85 * (pi * square) / 4 \<rparr>)"

text \<open>
  A method is a function of the object that returns its outcome (an error or a value)
  together with the object as the call leaves it. No method other than \<open>__init__\<close>
  assigns to an attribute.
\<close>

definition calculate_flow_rates ::
  "DistillationColumn \<Rightarrow> (real \<times> real \<times> real \<times> real) \<times> DistillationColumn" where
  "calculate_flow_rates self =
     (let Vmole = Dmole_flow self * (reflux_ratio self + 1);
          Bmole = Bmole_flow self * (boilup_ratio self + 1);
          Vmass = Dmass_flow self * (reflux_ratio self + 1);
          Bmass = Bmass_flow self * (boilup_ratio self + 1)
      in ((Vmole, Bmole, Vmass, Bmass), self))"

definition calculate_opt_velocity ::
  "DistillationColumn \<Rightarrow> real \<Rightarrow> (py_error + real) \<times> DistillationColumn" where
  "calculate_opt_velocity self Vmole =
     (raising (float_div (Vmole * molecular_weight self)
                         (vapor_density self * cross_sectional_area self * 3600)) (\<lambda>v_opt.
      float_div v_opt 0.3048),
      self)"

definition calculate_flooding_velocity ::
  "DistillationColumn \<Rightarrow> real \<Rightarrow> real \<Rightarrow> (py_error + py_num) \<times> DistillationColumn" where
  "calculate_flooding_velocity self Bmass Vmass =
     (raising (float_div Bmass Vmass) (\<lambda>q.
      raising (float_div (vapor_density self) (liquid_density self)) (\<lambda>d.
      raising (math_sqrt d) (\<lambda>s.
      let Flv = q * s in
      raising (math_log10 Flv) (\<lambda>L.
      let Csbf = 10 powr (- 1.0262 - 0.63513 * L - 0.20097 * L\<^sup>2) in
      let p = float_pow_fifth (surface_tension self / 20) in
      raising (float_div (liquid_density self - vapor_density self) (vapor_density self)) (\<lambda>r.
      raising (math_sqrt r) (\<lambda>t.
      Inr (py_mul (py_mul (PyFloat Csbf) p) (PyFloat t)))))))),
      self)"

text \<open>\<open>simulate\<close> returns a dictionary with three keys.\<close>

definition simulate ::
  "DistillationColumn \<Rightarrow> (py_error + (string \<rightharpoonup> py_num)) \<times> DistillationColumn" where
  "simulate self =
     (case calculate_flow_rates self of ((Vmole, Bmole, Vmass, Bmass), s1) \<Rightarrow>
       (case calculate_opt_velocity s1 Vmole of
          (Inl e, s2) \<Rightarrow> (Inl e, s2)
        | (Inr v_opt, s2) \<Rightarrow>
           (case calculate_flooding_velocity s2 Bmass Vmass of
              (Inl e, s3) \<Rightarrow> (Inl e, s3)
            | (Inr v_flood, s3) \<Rightarrow>
               (case py_div (PyFloat v_opt) v_flood of
                  Inl e \<Rightarrow> (Inl e, s3)
                | Inr q \<Rightarrow>
                   (Inr [''flooding_velocity'' \<mapsto> v_flood,
                         ''operating_velocity'' \<mapsto> PyFloat v_opt,
                         ''flooding_percentage'' \<mapsto> py_mul q (PyFloat 100)],
                    s3)))))"



text \<open>The object that the example run constructs for its base column.\<close>

definition column :: DistillationColumn where
  "column =
     \<lparr> diameter = 1.8, Dmole_flow = 103.75, Bmole_flow = 86.087, Dmass_flow = 5700,
       Bmass_flow = 4300, reflux_ratio = 2.25, boilup_ratio = 3.77, liquid_density = 723.15,
       vapor_density = 2.9, molecular_weight = 54.93, surface_tension = 25.9,
       cross_sectional_area = 0.85 * (pi * 1.8\<^sup>2) / 4 \<rparr>"

section \<open>Basic facts about the operations\<close>

text \<open>
  Sequencing, and the constructor: below the overflow bound it returns the object that
  stores its arguments.
\<close>

lemma raising_Inr: "raising (Inr v) f = f v"
  by (simp add: raising_def)

lemma raising_Inl: "raising (Inl e) f = Inl e"
  by (simp add: raising_def)






text \<open>
  No method assigns to an attribute: each leaves the object as it found it.
\<close>

lemma calculate_flow_rates_frame: "snd (calculate_flow_rates self) = self"
  by (simp add: calculate_flow_rates_def)

lemma calculate_opt_velocity_frame: "snd (calculate_opt_velocity self Vmole) = self"
  by (simp add: calculate_opt_velocity_def)

lemma calculate_flooding_velocity_frame:
  "snd (calculate_flooding_velocity self Bmass Vmass) = self"
  by (simp add: calculate_flooding_velocity_def)

text \<open>
  The outcome of the two velocity calculations.
\<close>

lemma calculate_opt_velocity_outcome:
  "fst (calculate_opt_velocity self Vmole) =
     (if vapor_density self * cross_sectional_area self = 0 then Inl ZeroDivisionError
      else Inr (Vmole * molecular_weight self
             / (vapor_density self * cross_sectional_area self * 3600) / 0.3048))"
  by (simp add: calculate_opt_velocity_def raising_def float_div_def)

lemma calculate_opt_velocity_ok:
  assumes "vapor_density self * cross_sectional_area self \<noteq> 0"
  shows "calculate_opt_velocity self Vmole =
     (Inr (Vmole * molecular_weight self
             / (vapor_density self * cross_sectional_area self * 3600) / 0.3048), self)"
  using assms by (simp add: calculate_opt_velocity_def raising_def float_div_def)

lemma calculate_flooding_velocity_zero_vapor:
  "fst (calculate_flooding_velocity self Bmass 0) = Inl ZeroDivisionError"
  by (simp add: calculate_flooding_velocity_def float_div_def raising_Inl)


lemma calculate_flooding_velocity_ok:
  assumes "0 < Bmass" "0 < Vmass"
    and "0 < vapor_density self" "vapor_density self < liquid_density self"
  shows "calculate_flooding_velocity self Bmass Vmass =
     (let Flv = (Bmass / Vmass) * sqrt (vapor_density self / liquid_density self);
          Csbf = 10 powr (- 1.0262 - 0.63513 * log 10 Flv - 0.20097 * (log 10 Flv)\<^sup>2);
          root = sqrt ((liquid_density self - vapor_density self) / vapor_density self)
      in (Inr (if 0 \<le> surface_tension self
            then PyFloat (Csbf * (surface_tension self / 20) powr 0.2 * root)
            else PyComplex (of_real Csbf
                    * (of_real ((- (surface_tension self / 20)) powr 0.2) * cis (pi * 0.2))
                    * of_real root)), self))"
proof -
  have liq: "0 < liquid_density self"
    using assms by linarith
  have q: "float_div Bmass Vmass = Inr (Bmass / Vmass)"
    using assms by (simp add: float_div_def)
  have d: "float_div (vapor_density self) (liquid_density self)
             = Inr (vapor_density self / liquid_density self)"
    using liq by (simp add: float_div_def)
  have s: "math_sqrt (vapor_density self / liquid_density self)
             = Inr (sqrt (vapor_density self / liquid_density self))"
    using assms liq by (simp add: math_sqrt_def not_less)
  have "0 < (Bmass / Vmass) * sqrt (vapor_density self / liquid_density self)"
    using assms liq by simp
  then have L: "math_log10 ((Bmass / Vmass) * sqrt (vapor_density self / liquid_density self))
             = Inr (log 10 ((Bmass / Vmass) * sqrt (vapor_density self / liquid_density self)))"
    by (simp add: math_log10_def)
  have r: "float_div (liquid_density self - vapor_density self) (vapor_density self)
             = Inr ((liquid_density self - vapor_density self) / vapor_density self)"
    using assms by (simp add: float_div_def)
  have t: "math_sqrt ((liquid_density self - vapor_density self) / vapor_density self)
             = Inr (sqrt ((liquid_density self - vapor_density self) / vapor_density self))"
    using assms by (simp add: math_sqrt_def not_less)
  have "calculate_flooding_velocity self Bmass Vmass =
      (Inr (py_mul (py_mul
         (PyFloat (10 powr (- 1.0262
            - 0.63513 * log 10 ((Bmass / Vmass) * sqrt (vapor_density self / liquid_density self))
            - 0.20097 * (log 10 ((Bmass / Vmass) * sqrt (vapor_density self / liquid_density self)))\<^sup>2)))
         (if 0 \<le> surface_tension self / 20 then PyFloat ((surface_tension self / 20) powr 0.2)
          else PyComplex (of_real ((- (surface_tension self / 20)) powr 0.2) * cis (pi * 0.2))))
         (PyFloat (sqrt ((liquid_density self - vapor_density self) / vapor_density self)))), self)"
    unfolding calculate_flooding_velocity_def
    by (simp only: q d s L r t float_pow_fifth_def raising_Inr Let_def)
  then show ?thesis
    by (simp add: Let_def)
qed

text \<open>
  \<open>simulate\<close> in one equation: the three steps in sequence, the object unchanged.
\<close>

lemma simulate_eq:
  "simulate self =
     (raising (fst (calculate_opt_velocity self (Dmole_flow self * (reflux_ratio self + 1))))
        (\<lambda>v_opt.
      raising (fst (calculate_flooding_velocity self
                      (Bmass_flow self * (boilup_ratio self + 1))
                      (Dmass_flow self * (reflux_ratio self + 1))))
        (\<lambda>v_flood.
      raising (py_div (PyFloat v_opt) v_flood)
        (\<lambda>q.
      Inr [''flooding_velocity'' \<mapsto> v_flood,
           ''operating_velocity'' \<mapsto> PyFloat v_opt,
           ''flooding_percentage'' \<mapsto> py_mul q (PyFloat 100)]))),
      self)"
proof -
  define ov where "ov = fst (calculate_opt_velocity self (Dmole_flow self * (reflux_ratio self + 1)))"
  define fv where "fv = fst (calculate_flooding_velocity self
                      (Bmass_flow self * (boilup_ratio self + 1))
                      (Dmass_flow self * (reflux_ratio self + 1)))"
  have o: "calculate_opt_velocity self (Dmole_flow self * (reflux_ratio self + 1)) = (ov, self)"
    by (simp add: ov_def calculate_opt_velocity_def)
  have f: "calculate_flooding_velocity self (Bmass_flow self * (boilup_ratio self + 1))
             (Dmass_flow self * (reflux_ratio self + 1)) = (fv, self)"
    by (simp add: fv_def calculate_flooding_velocity_def)
  have "simulate self =
     (raising ov (\<lambda>v_opt. raising fv (\<lambda>v_flood.
      raising (py_div (PyFloat v_opt) v_flood)
        (\<lambda>q.
      Inr [''flooding_velocity'' \<mapsto> v_flood,
           ''operating_velocity'' \<mapsto> PyFloat v_opt,
           ''flooding_percentage'' \<mapsto> py_mul q (PyFloat 100)]))), self)"
    unfolding simulate_def calculate_flow_rates_def Let_def
    by (simp only: prod.case o f) (simp add: raising_def split: sum.splits)
  then show ?thesis
    by (simp only: ov_def fv_def)
qed

lemma simulate_frame: "snd (simulate self) = self"
  by (simp add: simulate_eq)

lemma simulate_success:
  assumes "fst (simulate self) = Inr r"
  obtains v_opt v_flood q where
    "fst (calculate_opt_velocity self (Dmole_flow self * (reflux_ratio self + 1))) = Inr v_opt"
    and "fst (calculate_flooding_velocity self
                      (Bmass_flow self * (boilup_ratio self + 1))
                      (Dmass_flow self * (reflux_ratio self + 1))) = Inr v_flood"
    and "py_div (PyFloat v_opt) v_flood = Inr q"
    and "r = [''flooding_velocity'' \<mapsto> v_flood,
              ''operating_velocity'' \<mapsto> PyFloat v_opt,
              ''flooding_percentage'' \<mapsto> py_mul q (PyFloat 100)]"
proof -
  let ?ov = "fst (calculate_opt_velocity self (Dmole_flow self * (reflux_ratio self + 1)))"
  let ?fv = "fst (calculate_flooding_velocity self
                      (Bmass_flow self * (boilup_ratio self + 1))
                      (Dmass_flow self * (reflux_ratio self + 1)))"
  from assms obtain v_opt where ov: "?ov = Inr v_opt"
    by (cases ?ov) (simp_all only: simulate_eq fst_conv raising_Inl sum.distinct)
  from assms ov obtain v_flood where fv: "?fv = Inr v_flood"
    by (cases ?fv) (simp_all only: simulate_eq fst_conv raising_Inl raising_Inr sum.distinct)
  from assms ov fv obtain q where q: "py_div (PyFloat v_opt) v_flood = Inr q"
    by (cases "py_div (PyFloat v_opt) v_flood")
       (simp_all only: simulate_eq fst_conv raising_Inl raising_Inr sum.distinct)
  from assms have "r = [''flooding_velocity'' \<mapsto> v_flood,
           ''operating_velocity'' \<mapsto> PyFloat v_opt,
           ''flooding_percentage'' \<mapsto> py_mul q (PyFloat 100)]"
    by (simp only: simulate_eq fst_conv ov fv q raising_Inr sum.inject)
  with ov fv q show thesis
    by (rule that)
qed

lemma simulate_ok:
  assumes area: "0 < cross_sectional_area self"
    and B: "0 < Bmass_flow self * (boilup_ratio self + 1)"
    and V: "0 < Dmass_flow self * (reflux_ratio self + 1)"
    and rv: "0 < vapor_density self" and rl: "vapor_density self < liquid_density self"
    and st: "0 < surface_tension self"
  shows "\<exists>vf. 0 < vf \<and> fst (simulate self) =
           Inr [''flooding_velocity'' \<mapsto> PyFloat vf,
                ''operating_velocity'' \<mapsto>
                   PyFloat (Dmole_flow self * (reflux_ratio self + 1) * molecular_weight self
                      / (vapor_density self * cross_sectional_area self * 3600) / 0.3048),
                ''flooding_percentage'' \<mapsto>
                   PyFloat (Dmole_flow self * (reflux_ratio self + 1) * molecular_weight self
                      / (vapor_density self * cross_sectional_area self * 3600) / 0.3048
                      / vf * 100)]"
proof -
  define Csbf where "Csbf = 10 powr (- 1.0262
      - 0.63513 * log 10 ((Bmass_flow self * (boilup_ratio self + 1))
            / (Dmass_flow self * (reflux_ratio self + 1))
            * sqrt (vapor_density self / liquid_density self))
      - 0.20097 * (log 10 ((Bmass_flow self * (boilup_ratio self + 1))
            / (Dmass_flow self * (reflux_ratio self + 1))
            * sqrt (vapor_density self / liquid_density self)))\<^sup>2)"
  define vf where "vf = Csbf * (surface_tension self / 20) powr 0.2
      * sqrt ((liquid_density self - vapor_density self) / vapor_density self)"
  have "0 < Csbf"
    by (simp add: Csbf_def)
  moreover have "0 < (surface_tension self / 20) powr 0.2"
    using st by simp
  moreover have "0 < sqrt ((liquid_density self - vapor_density self) / vapor_density self)"
    using rv rl by simp
  ultimately have pos: "0 < vf"
    by (simp add: vf_def)
  have fv: "fst (calculate_flooding_velocity self
                      (Bmass_flow self * (boilup_ratio self + 1))
                      (Dmass_flow self * (reflux_ratio self + 1))) = Inr (PyFloat vf)"
    using calculate_flooding_velocity_ok [OF B V rv rl] st
    by (simp add: Let_def vf_def Csbf_def)
  have "vapor_density self * cross_sectional_area self \<noteq> 0"
    using area rv by simp
  then have ov: "fst (calculate_opt_velocity self (Dmole_flow self * (reflux_ratio self + 1)))
       = Inr (Dmole_flow self * (reflux_ratio self + 1) * molecular_weight self
                      / (vapor_density self * cross_sectional_area self * 3600) / 0.3048)"
    by (simp add: calculate_opt_velocity_outcome)
  have "fst (simulate self) =
           Inr [''flooding_velocity'' \<mapsto> PyFloat vf,
                ''operating_velocity'' \<mapsto>
                   PyFloat (Dmole_flow self * (reflux_ratio self + 1) * molecular_weight self
                      / (vapor_density self * cross_sectional_area self * 3600) / 0.3048),
                ''flooding_percentage'' \<mapsto>
                   PyFloat (Dmole_flow self * (reflux_ratio self + 1) * molecular_weight self
                      / (vapor_density self * cross_sectional_area self * 3600) / 0.3048
                      / vf * 100)]"
    using pos by (simp only: simulate_eq fst_conv ov fv raising_Inr) (simp add: raising_Inr)
  with pos show ?thesis
    by blast
qed

lemma column_ok:
  "0 < cross_sectional_area column"
  "0 < Bmass_flow column * (boilup_ratio column + 1)"
  "0 < Dmass_flow column * (reflux_ratio column + 1)"
  "0 < vapor_density column" "vapor_density column < liquid_density column"
  "0 < surface_tension column"
  by (simp_all add: column_def)


section \<open>Construction\<close>

text \<open>
  C7 (as stated: construction with a non-positive diameter or density, or with
  \<open>liquid_density \<le> vapor_density\<close>, fails with an invalid-parameter error). The
  constructor has no check: with \<open>diameter = 0\<close> and the other arguments of the base
  column it returns an object, whose area is 0.
\<close>

theorem DistillationColumn_init_zero_diameter:
  "DistillationColumn_init 0 103.75 86.087 5700 4300 2.25 3.77 723.15 2.9 54.93 25.9 =
     Inr \<lparr> diameter = 0, Dmole_flow = 103.75, Bmole_flow = 86.087, Dmass_flow = 5700,
       Bmass_flow = 4300, reflux_ratio = 2.25, boilup_ratio = 3.77, liquid_density = 723.15,
       vapor_density = 2.9, molecular_weight = 54.93, surface_tension = 25.9,
       cross_sectional_area = 0 \<rparr>"
  by (simp add: DistillationColumn_init_def float_square_def raising_def)

text \<open>
  C7 (amended). Construction checks none of its arguments. For every diameter whose
  square is below the overflow bound of doubles, be it positive, zero or negative, and
  for all values of the other ten arguments, it returns an object that stores the eleven
  arguments as given. Its only failure is the \<open>OverflowError\<close> of
  \<open>diameter ** 2\<close> for a diameter beyond that bound.
\<close>

theorem DistillationColumn_init_unchecked:
  "(d\<^sup>2 < 2 ^ 1024 - 2 ^ 970 \<longrightarrow>
      (\<exists>c. DistillationColumn_init d Dmo Bmo Dma Bma R Bo rl rv mw st = Inr c
         \<and> diameter c = d \<and> Dmole_flow c = Dmo \<and> Bmole_flow c = Bmo
         \<and> Dmass_flow c = Dma \<and> Bmass_flow c = Bma \<and> reflux_ratio c = R
         \<and> boilup_ratio c = Bo \<and> liquid_density c = rl \<and> vapor_density c = rv
         \<and> molecular_weight c = mw \<and> surface_tension c = st))
   \<and> (2 ^ 1024 - 2 ^ 970 \<le> d\<^sup>2 \<longrightarrow>
        DistillationColumn_init d Dmo Bmo Dma Bma R Bo rl rv mw st = Inl OverflowError)"
  by (simp add: DistillationColumn_init_def float_square_def raising_def)

theorem DistillationColumn_init_unchecked_witness:
  "(- 1)\<^sup>2 < (2 ^ 1024 - 2 ^ 970 :: real)
   \<and> (\<exists>c. DistillationColumn_init (- 1) 103.75 86.087 5700 4300 2.25 3.77 2.9 723.15 54.93 25.9
            = Inr c
         \<and> diameter c = - 1 \<and> liquid_density c = 2.9 \<and> vapor_density c = 723.15)
   \<and> (2 ^ 1024 - 2 ^ 970 :: real) \<le> (- (2 ^ 600))\<^sup>2
   \<and> DistillationColumn_init (- (2 ^ 600)) 103.75 86.087 5700 4300 2.25 3.77 723.15 2.9
         54.93 25.9 = Inl OverflowError"
proof -
  have small: "(- 1)\<^sup>2 < (2 ^ 1024 - 2 ^ 970 :: real)"
    by simp
  have big: "(2 ^ 1024 - 2 ^ 970 :: real) \<le> (- (2 ^ 600))\<^sup>2"
    by simp
  show ?thesis
    using small big
      DistillationColumn_init_unchecked
        [of "- 1" "103.75" "86.087" 5700 4300 "2.25" "3.77" "2.9" "723.15" "54.93" "25.9"]
      DistillationColumn_init_unchecked
        [of "- (2 ^ 600)" "103.75" "86.087" 5700 4300 "2.25" "3.77" "723.15" "2.9" "54.93" "25.9"]
    by blast
qed

section \<open>Flow rates\<close>

text \<open>
  C3. \<open>calculate_flow_rates\<close> returns exactly the four products: vapour mole flow
  = distillate mole flow times (reflux ratio + 1), bottoms mole flow = nominal bottoms
  mole flow times (boilup ratio + 1), and the same for the two mass flows; with a reflux
  ratio of 0 the vapour mole flow is the distillate mole flow itself.
\<close>

theorem calculate_flow_rates_values:
  "fst (calculate_flow_rates self) =
     (Dmole_flow self * (reflux_ratio self + 1),
      Bmole_flow self * (boilup_ratio self + 1),
      Dmass_flow self * (reflux_ratio self + 1),
      Bmass_flow self * (boilup_ratio self + 1))
   \<and> fst (fst (calculate_flow_rates (self\<lparr>reflux_ratio := 0\<rparr>))) = Dmole_flow self"
  by (simp add: calculate_flow_rates_def)

section \<open>Flooding velocity\<close>




section \<open>Simulation\<close>

text \<open>
  C4. When \<open>simulate\<close> succeeds, the dictionary it returns holds the operating and
  flooding velocities computed by the two velocity calculations from the flow rates of
  the same column, the flooding velocity is not zero, and \<open>flooding_percentage\<close> is
  exactly operating velocity / flooding velocity * 100.
\<close>

theorem simulate_flooding_percentage:
  assumes "fst (simulate self) = Inr r"
  shows "\<exists>Vmole Bmole Vmass Bmass v_opt v_flood.
       fst (calculate_flow_rates self) = (Vmole, Bmole, Vmass, Bmass)
     \<and> fst (calculate_opt_velocity self Vmole) = Inr v_opt
     \<and> fst (calculate_flooding_velocity self Bmass Vmass) = Inr v_flood
     \<and> r ''operating_velocity'' = Some (PyFloat v_opt)
     \<and> r ''flooding_velocity'' = Some v_flood
     \<and> v_flood \<noteq> PyFloat 0 \<and> v_flood \<noteq> PyComplex 0
     \<and> r ''flooding_percentage'' =
         Some (case v_flood of
                 PyFloat f \<Rightarrow> PyFloat (v_opt / f * 100)
               | PyComplex z \<Rightarrow> PyComplex (of_real v_opt / z * 100))"
proof -
  from assms obtain v_opt v_flood q where
    ov: "fst (calculate_opt_velocity self (Dmole_flow self * (reflux_ratio self + 1))) = Inr v_opt"
    and fv: "fst (calculate_flooding_velocity self
                      (Bmass_flow self * (boilup_ratio self + 1))
                      (Dmass_flow self * (reflux_ratio self + 1))) = Inr v_flood"
    and q: "py_div (PyFloat v_opt) v_flood = Inr q"
    and r: "r = [''flooding_velocity'' \<mapsto> v_flood,
              ''operating_velocity'' \<mapsto> PyFloat v_opt,
              ''flooding_percentage'' \<mapsto> py_mul q (PyFloat 100)]"
    by (rule simulate_success)
  have nz: "v_flood \<noteq> PyFloat 0 \<and> v_flood \<noteq> PyComplex 0"
    using q by (cases v_flood) (auto split: if_splits)
  have pct: "py_mul q (PyFloat 100) =
      (case v_flood of
         PyFloat f \<Rightarrow> PyFloat (v_opt / f * 100)
       | PyComplex z \<Rightarrow> PyComplex (of_real v_opt / z * 100))"
    using q by (cases v_flood) (auto split: if_splits)
  have flows: "fst (calculate_flow_rates self) =
     (Dmole_flow self * (reflux_ratio self + 1), Bmole_flow self * (boilup_ratio self + 1),
      Dmass_flow self * (reflux_ratio self + 1), Bmass_flow self * (boilup_ratio self + 1))"
    by (simp add: calculate_flow_rates_def)
  show ?thesis
    using flows ov fv nz pct by (intro exI conjI) (simp_all add: r)
qed

theorem simulate_flooding_percentage_witness:
  "\<exists>r. fst (simulate column) = Inr r \<and>
     (\<exists>Vmole Bmole Vmass Bmass v_opt v_flood.
       fst (calculate_flow_rates column) = (Vmole, Bmole, Vmass, Bmass)
     \<and> fst (calculate_opt_velocity column Vmole) = Inr v_opt
     \<and> fst (calculate_flooding_velocity column Bmass Vmass) = Inr v_flood
     \<and> r ''operating_velocity'' = Some (PyFloat v_opt)
     \<and> r ''flooding_velocity'' = Some v_flood
     \<and> v_flood \<noteq> PyFloat 0 \<and> v_flood \<noteq> PyComplex 0
     \<and> r ''flooding_percentage'' =
         Some (case v_flood of
                 PyFloat f \<Rightarrow> PyFloat (v_opt / f * 100)
               | PyComplex z \<Rightarrow> PyComplex (of_real v_opt / z * 100)))"
proof -
  obtain r where h: "fst (simulate column) = Inr r"
    using simulate_ok [OF column_ok] by blast
  show ?thesis
    using h simulate_flooding_percentage [OF h] by blast
qed

text \<open>
  C8. When the derived vapour mass flow is zero, \<open>simulate\<close> raises
  \<open>ZeroDivisionError\<close>: it returns no dictionary at all.
\<close>

theorem simulate_zero_vapor_mass_flow:
  assumes "fst (calculate_flow_rates self) = (Vmole, Bmole, 0, Bmass)"
  shows "fst (simulate self) = Inl ZeroDivisionError"
proof -
  have "Dmass_flow self * (reflux_ratio self + 1) = 0"
    using assms by (simp add: calculate_flow_rates_def)
  then have flood: "fst (calculate_flooding_velocity self
                      (Bmass_flow self * (boilup_ratio self + 1))
                      (Dmass_flow self * (reflux_ratio self + 1))) = Inl ZeroDivisionError"
    by (simp only: calculate_flooding_velocity_zero_vapor)
  show ?thesis
  proof (cases "vapor_density self * cross_sectional_area self = 0")
    case True
    then have "fst (calculate_opt_velocity self (Dmole_flow self * (reflux_ratio self + 1)))
                 = Inl ZeroDivisionError"
      by (simp add: calculate_opt_velocity_outcome)
    then show ?thesis
      by (simp only: simulate_eq raising_Inl fst_conv)
  next
    case False
    then obtain v where
      "fst (calculate_opt_velocity self (Dmole_flow self * (reflux_ratio self + 1))) = Inr v"
      by (simp add: calculate_opt_velocity_outcome)
    then show ?thesis
      by (simp only: simulate_eq flood raising_Inl raising_Inr fst_conv)
  qed
qed

theorem simulate_zero_vapor_mass_flow_witness:
  "fst (calculate_flow_rates (column\<lparr>Dmass_flow := 0\<rparr>))
     = (103.75 * 3.25, 86.087 * 4.77, 0, 4300 * 4.77)
   \<and> fst (simulate (column\<lparr>Dmass_flow := 0\<rparr>)) = Inl ZeroDivisionError"
proof -
  have h: "fst (calculate_flow_rates (column\<lparr>Dmass_flow := 0\<rparr>))
     = (103.75 * 3.25, 86.087 * 4.77, 0, 4300 * 4.77)"
    by (simp add: calculate_flow_rates_def column_def)
  show ?thesis
    using h simulate_zero_vapor_mass_flow [OF h] by simp
qed




text \<open>
  C10. Each of \<open>calculate_flow_rates\<close>, \<open>calculate_opt_velocity\<close>,
  \<open>calculate_flooding_velocity\<close> and \<open>simulate\<close> leaves the object, all twelve
  attributes, as it was before the call; so a second call on the same object returns
  what the first one did.
\<close>

theorem methods_leave_column_unchanged:
  "snd (calculate_flow_rates self) = self
   \<and> snd (calculate_opt_velocity self Vmole) = self
   \<and> snd (calculate_flooding_velocity self Bmass Vmass) = self
   \<and> snd (simulate self) = self
   \<and> simulate (snd (simulate self)) = simulate self
   \<and> calculate_flow_rates (snd (calculate_flow_rates self)) = calculate_flow_rates self
   \<and> calculate_opt_velocity (snd (calculate_opt_velocity self Vmole)) Vmole
        = calculate_opt_velocity self Vmole
   \<and> calculate_flooding_velocity (snd (calculate_flooding_velocity self Bmass Vmass)) Bmass Vmass
        = calculate_flooding_velocity self Bmass Vmass"
  by (simp add: calculate_flow_rates_frame calculate_opt_velocity_frame
      calculate_flooding_velocity_frame simulate_frame)

end
